theory Spec2Isabelle
  imports Complex_Main "HOL-Library.Sublist"
begin

section \<open>Python text operations\<close>

text \<open>
  A Python string is modelled as a \<^typ>\<open>string\<close>, one \<^typ>\<open>char\<close> for each character.
  The character classes and case maps below are Python's on ASCII text; a character
  beyond ASCII is taken as it is: not white space, not a letter, without case.
\<close>

definition isspace_char :: "char \<Rightarrow> bool" where
  \<comment> \<open>tab, line feed, vertical tab, form feed, carriage return, the four separators
      FS GS RS US, and the space\<close>
  "isspace_char c = (let n = (of_char c :: nat) in (9 \<le> n \<and> n \<le> 13) \<or> (28 \<le> n \<and> n \<le> 32))"

definition isupper_char :: "char \<Rightarrow> bool" where
  "isupper_char c = (let n = (of_char c :: nat) in 65 \<le> n \<and> n \<le> 90)"

definition islower_char :: "char \<Rightarrow> bool" where
  "islower_char c = (let n = (of_char c :: nat) in 97 \<le> n \<and> n \<le> 122)"

definition isalpha_char :: "char \<Rightarrow> bool" where
  "isalpha_char c = (isupper_char c \<or> islower_char c)"

definition lower_char :: "char \<Rightarrow> char" where
  "lower_char c = (if isupper_char c then char_of ((of_char c :: nat) + 32) else c)"

definition upper_char :: "char \<Rightarrow> char" where
  "upper_char c = (if islower_char c then char_of ((of_char c :: nat) - 32) else c)"

definition lower :: "string \<Rightarrow> string" where
  "lower s = map lower_char s"

definition upper :: "string \<Rightarrow> string" where
  "upper s = map upper_char s"

definition strip :: "string \<Rightarrow> string" where
  \<comment> \<open>\<^verbatim>\<open>s.strip()\<close>: white space removed at both ends\<close>
  "strip s = rev (dropWhile isspace_char (rev (dropWhile isspace_char s)))"

definition isalpha :: "string \<Rightarrow> bool" where
  \<comment> \<open>\<^verbatim>\<open>s.isalpha()\<close>: at least one character, and every character a letter\<close>
  "isalpha s = (s \<noteq> [] \<and> list_all isalpha_char s)"

definition isupper :: "string \<Rightarrow> bool" where
  \<comment> \<open>\<^verbatim>\<open>s.isupper()\<close>: at least one cased character, and no cased character in lower case\<close>
  "isupper s = (list_ex isupper_char s \<and> \<not> list_ex islower_char s)"

definition replace_char :: "char \<Rightarrow> string \<Rightarrow> string" where
  \<comment> \<open>\<^verbatim>\<open>s.replace(c, '')\<close>: every occurrence of the character removed\<close>
  "replace_char c s = filter (\<lambda>d. d \<noteq> c) s"

text \<open>
  \<^verbatim>\<open>a in b\<close> on strings is \<^term>\<open>sublist a b\<close>: b is some prefix, then a, then some
  suffix. The empty string is in every string.
\<close>

fun split_sep :: "char \<Rightarrow> string \<Rightarrow> string \<Rightarrow> string list" where
  \<comment> \<open>\<^verbatim>\<open>s.split(sep)\<close> for a separator of one character; the third argument is the
      piece being read. Empty pieces are kept.\<close>
  "split_sep sep [] piece = [piece]"
| "split_sep sep (c # cs) piece =
     (if c = sep then piece # split_sep sep cs [] else split_sep sep cs (piece @ [c]))"

fun split_ws :: "string \<Rightarrow> string \<Rightarrow> string list" where
  \<comment> \<open>\<^verbatim>\<open>s.split()\<close>: the maximal runs of characters that are not white space; the
      second argument is the word being read.\<close>
  "split_ws [] word = (if word = [] then [] else [word])"
| "split_ws (c # cs) word =
     (if isspace_char c then (if word = [] then split_ws cs [] else word # split_ws cs [])
      else split_ws cs (word @ [c]))"

fun join :: "string \<Rightarrow> string list \<Rightarrow> string" where
  \<comment> \<open>\<^verbatim>\<open>sep.join(words)\<close>\<close>
  "join sep [] = []"
| "join sep [w] = w"
| "join sep (w # ws) = w @ sep @ join sep ws"

definition basename :: "string \<Rightarrow> string" where
  \<comment> \<open>\<^verbatim>\<open>os.path.basename\<close> of posixpath: what follows the last slash\<close>
  "basename p = rev (takeWhile (\<lambda>c. c \<noteq> CHR ''/'') (rev p))"

definition splitext_root :: "string \<Rightarrow> string" where
  \<comment> \<open>\<^verbatim>\<open>os.path.splitext(p)[0]\<close> of posixpath, for a path without a slash (it is
      applied to a basename only): the text before the last dot, when some character
      before that dot is not a dot; the whole of p otherwise.\<close>
  "splitext_root p =
     (if CHR ''.'' \<in> set p then
        (let root = rev (tl (dropWhile (\<lambda>c. c \<noteq> CHR ''.'') (rev p)))
         in if list_ex (\<lambda>c. c \<noteq> CHR ''.'') root then root else p)
      else p)"

section \<open>Skill validation (openai_analyzer.py, analyze_resume, lines 274-311)\<close>

fun is_valid_match :: "string \<Rightarrow> string list \<Rightarrow> bool" where
  \<comment> \<open>lines 284-293: the loop over the required skills, left at the first match\<close>
  "is_valid_match skill_lower [] = False"
| "is_valid_match skill_lower (req_skill # rest) =
     (let req_skill_lower = strip (lower req_skill)
      in if skill_lower = req_skill_lower \<or> sublist skill_lower req_skill_lower
            \<or> sublist req_skill_lower skill_lower
         then True
         else is_valid_match skill_lower rest)"

fun validate_loop :: "string list \<Rightarrow> string list \<Rightarrow> string list \<Rightarrow> string list" where
  \<comment> \<open>lines 278-299: the loop over the skills the model listed; the third argument is
      validated_matching_skills so far\<close>
  "validate_loop [] required_skills validated = validated"
| "validate_loop (skill # rest) required_skills validated =
     (let skill_lower = strip (lower skill)
      in if is_valid_match skill_lower required_skills
         then validate_loop rest required_skills (validated @ [skill])
         else validate_loop rest required_skills validated)"

definition validate_skills :: "string list \<Rightarrow> string list \<Rightarrow> string list \<times> real" where
  \<comment> \<open>lines 275-309: the pair (validated_matching_skills, skill_match_ratio)\<close>
  "validate_skills listed_skills required_skills =
     (if required_skills \<noteq> [] then
        (let validated = validate_loop listed_skills required_skills [];
             actual_matching_count = length validated
         in (validated, real actual_matching_count / real (length required_skills)))
      else (listed_skills, 0))"

section \<open>Score calibration (openai_analyzer.py, analyze_resume, lines 307-355)\<close>

text \<open>
  Scores and ratios are Python floats in the source. They are modelled as real numbers:
  the finite floats, with rounding left out. Every comparison and constant below is the
  one written in the source.
\<close>

text \<open>
  Lines 316-333: the expected range for a skill match ratio, as the pair
  (min_score, max_allowed_score).
\<close>

definition score_range :: "real \<Rightarrow> real \<times> real" where
  "score_range skill_match_ratio =
     (if skill_match_ratio \<ge> 0.9 then (85, 100)
      else if skill_match_ratio \<ge> 0.8 then (75, 90)
      else if skill_match_ratio \<ge> 0.6 then (60, 80)
      else if skill_match_ratio \<ge> 0.4 then (45, 65)
      else if skill_match_ratio \<ge> 0.2 then (15, 45)
      else (5, 25))"

definition min_score :: "real \<Rightarrow> real" where
  "min_score skill_match_ratio = fst (score_range skill_match_ratio)"

definition max_allowed_score :: "real \<Rightarrow> real" where
  "max_allowed_score skill_match_ratio = snd (score_range skill_match_ratio)"

text \<open>
  Lines 307-355: the value of validated_score. The flag has_required is the test
  \<^verbatim>\<open>required_skills and len(required_skills) > 0\<close> of lines 276 and 314; when it
  fails, line 310 assigns the raw score and the block of line 314 is skipped.
\<close>

definition validated_score :: "real \<Rightarrow> real \<Rightarrow> bool \<Rightarrow> real" where
  "validated_score raw_score skill_match_ratio has_required =
     (if has_required then
        (if skill_match_ratio \<ge> 0.9 then
           (let outstanding_score = 85 + (skill_match_ratio - 0.9) * 150
            in min outstanding_score 100)
         else if skill_match_ratio < 0.2 then
           (let adjusted_score = min_score skill_match_ratio
                  + (max_allowed_score skill_match_ratio - min_score skill_match_ratio) * 0.3
            in min raw_score adjusted_score)
         else if raw_score > max_allowed_score skill_match_ratio then
           max_allowed_score skill_match_ratio
         else if raw_score < min_score skill_match_ratio \<and> skill_match_ratio \<ge> 0.8 then
           min_score skill_match_ratio
         else raw_score)
      else raw_score)"

section \<open>The analysis of one resume (openai_analyzer.py, analyze_resume)\<close>

text \<open>
  A value of the parsed answer that is read as a string by the caller: a JSON string, or
  any other JSON value, of which only the truth value matters (null, false, 0 and the empty
  list and object are false).
\<close>

datatype json_text = Str string | NonStr bool

text \<open>
  The answer of the external service for one resume. Either an exception is raised inside
  the \<^verbatim>\<open>try\<close> block of analyze_resume (the call fails, the answer is empty or is not
  JSON, the score cannot be converted by \<^verbatim>\<open>float\<close>, a listed skill is not a string),
  and the handler of line 368 catches it; or the fields are read, each absent field with
  the default of its \<^verbatim>\<open>get\<close>: the score a number, the skills lists of strings.
\<close>

record analysis_data =
  json_candidate_name :: json_text
  json_matching_score :: real
  json_key_skills :: "string list"
  json_matching_skills :: "string list"
  json_missing_skills :: "string list"
  json_summary :: string
  json_strengths :: "string list"
  json_weaknesses :: "string list"

datatype response = Raised | Parsed analysis_data

record ResumeAnalysis =
  candidate_name :: json_text
  matching_score :: real
  key_skills :: "string list"
  matching_skills :: "string list"
  missing_skills :: "string list"
  summary :: string
  strengths :: "string list"
  weaknesses :: "string list"

definition default_analysis :: ResumeAnalysis where
  \<comment> \<open>lines 371-380: the analysis returned when an exception was caught\<close>
  "default_analysis =
     \<lparr>candidate_name = Str ''Unknown Candidate'', matching_score = 0, key_skills = [],
      matching_skills = [], missing_skills = [],
      summary = ''Error occurred during analysis'', strengths = [], weaknesses = []\<rparr>"

definition analyze_resume :: "response \<Rightarrow> string list \<Rightarrow> ResumeAnalysis" where
  \<comment> \<open>lines 264-380, from the answer of the service and the required skills of the job\<close>
  "analyze_resume answer required_skills =
     (case answer of
        Raised \<Rightarrow> default_analysis
      | Parsed data \<Rightarrow>
          (let raw_score = json_matching_score data;
               (validated_matching_skills, skill_match_ratio) =
                  validate_skills (json_matching_skills data) required_skills
           in \<lparr>candidate_name = json_candidate_name data,
               matching_score =
                 validated_score raw_score skill_match_ratio (required_skills \<noteq> []),
               key_skills = json_key_skills data,
               matching_skills = validated_matching_skills,
               missing_skills = json_missing_skills data,
               summary = json_summary data,
               strengths = json_strengths data,
               weaknesses = json_weaknesses data\<rparr>))"

section \<open>Name extraction (openai_analyzer.py, extract_candidate_name_from_text)\<close>

definition header_terms :: "string list" where
  \<comment> \<open>lines 410-412\<close>
  "header_terms =
     [''RESUME'', ''CV'', ''CURRICULUM'', ''PROFILE'', ''OBJECTIVE'',
      ''SUMMARY'', ''EXPERIENCE'', ''EDUCATION'', ''SKILLS'', ''PROFESSIONAL'',
      ''PYTHON'', ''JAVA'', ''C++'', ''JAVASCRIPT'', ''SQL'', ''AWS'', ''DOCKER'']"

definition list_chars :: "char list" where
  \<comment> \<open>line 414\<close>
  "list_chars = [CHR '','', CHR '':'', CHR '';'', CHR ''|'']"

definition name_word :: "string \<Rightarrow> bool" where
  \<comment> \<open>line 403\<close>
  "name_word word =
     (isalpha (replace_char (CHR '','') (replace_char (CHR ''.'') word)) \<or> isupper word)"

fun scan_lines :: "string list \<Rightarrow> string option" where
  \<comment> \<open>lines 397-416: the name returned from inside the loop, or None when the loop ends\<close>
  "scan_lines [] = None"
| "scan_lines (raw_line # rest) =
     (let line = strip raw_line
      in if line \<noteq> [] \<and> length line > 2 then
           (let words = split_ws line []
            in if length words \<ge> 2 \<and> list_all name_word (take 3 words)
                  \<and> length (join '' '' (take 3 words)) < 50
               then
                 (let line_upper = upper line
                  in if \<not> list_ex (\<lambda>header. sublist header line_upper) header_terms
                        \<and> \<not> list_ex (\<lambda>char. char \<in> set line) list_chars
                        \<and> length words \<le> 4
                     then Some (join '' '' (take 3 words))
                     else scan_lines rest)
               else scan_lines rest)
         else scan_lines rest)"

definition filename_base :: "string \<Rightarrow> string" where
  \<comment> \<open>lines 419 and 452\<close>
  "filename_base file_path = splitext_root (basename file_path)"

definition extract_candidate_name_from_text :: "string \<Rightarrow> string \<Rightarrow> string" where
  \<comment> \<open>No operation of the body raises on strings, so the handler of line 421 is never
      entered and the function has no error result.\<close>
  "extract_candidate_name_from_text resume_text file_path =
     (let lines = take 10 (split_sep (CHR 0x0A) resume_text [])
      in case scan_lines lines of
           Some name \<Rightarrow> name
         | None \<Rightarrow> filename_base file_path)"

section \<open>The batch (openai_analyzer.py, batch_analyze_resumes)\<close>

datatype error = AttributeError

definition final_name :: "string \<Rightarrow> json_text \<Rightarrow> string \<Rightarrow> error + string" where
  \<comment> \<open>lines 455-466. On a value that is not a string, \<^verbatim>\<open>ai_extracted_name.strip()\<close>
      raises AttributeError; it is reached when the value is true, since such a value
      differs from the string of line 459.\<close>
  "final_name reliable_name ai_extracted_name filename =
     (if reliable_name \<noteq> [] \<and> reliable_name \<noteq> filename then Inr reliable_name
      else
        (case ai_extracted_name of
           Str ai_name \<Rightarrow>
             (if ai_name \<noteq> [] \<and> ai_name \<noteq> ''Unknown Candidate''
                 \<and> length (strip ai_name) > 2
                 \<and> \<not> sublist ''AVINASH'' (upper ai_name)
              then Inr ai_name
              else Inr filename)
         | NonStr truthy \<Rightarrow> (if truthy then Inl AttributeError else Inr filename)))"

text \<open>
  One resume of the batch is its file path, its text, and the answer the external service
  gives for it (the service is called once for each resume, line 448).
\<close>

type_synonym resume = "string \<times> string \<times> response"

definition analyze_named :: "resume \<Rightarrow> string list \<Rightarrow> error + ResumeAnalysis" where
  \<comment> \<open>lines 439-469: the body of the loop\<close>
  "analyze_named r required_skills =
     (case r of (file_path, resume_text, answer) \<Rightarrow>
        (let reliable_name = extract_candidate_name_from_text resume_text file_path;
             analysis = analyze_resume answer required_skills;
             ai_extracted_name = candidate_name analysis
         in case final_name reliable_name ai_extracted_name (filename_base file_path) of
              Inl e \<Rightarrow> Inl e
            | Inr name \<Rightarrow> Inr (analysis\<lparr>candidate_name := Str name\<rparr>)))"

fun analyze_loop :: "resume list \<Rightarrow> string list \<Rightarrow> ResumeAnalysis list
                       \<Rightarrow> error + ResumeAnalysis list" where
  \<comment> \<open>lines 438-471: the loop; the third argument is the list analyses so far\<close>
  "analyze_loop [] required_skills analyses = Inr analyses"
| "analyze_loop (r # rest) required_skills analyses =
     (case analyze_named r required_skills of
        Inl e \<Rightarrow> Inl e
      | Inr analysis \<Rightarrow> analyze_loop rest required_skills (analyses @ [analysis]))"

definition sort_by_score :: "ResumeAnalysis list \<Rightarrow> ResumeAnalysis list" where
  \<comment> \<open>line 474: \<^verbatim>\<open>sort(key=..., reverse=True)\<close> orders by descending key and keeps
      elements of equal key in their order, which is the stable sort by the negated key\<close>
  "sort_by_score analyses = sort_key (\<lambda>x. - matching_score x) analyses"

definition batch_analyze_resumes :: "resume list \<Rightarrow> string list
                                       \<Rightarrow> error + ResumeAnalysis list" where
  "batch_analyze_resumes resumes required_skills =
     (case analyze_loop resumes required_skills [] of
        Inl e \<Rightarrow> Inl e
      | Inr analyses \<Rightarrow> Inr (sort_by_score analyses))"

section \<open>The specification's notions\<close>

text \<open>The clamp of the specification: the value forced into the interval from lo to hi.\<close>

definition clamp :: "real \<Rightarrow> real \<Rightarrow> real \<Rightarrow> real" where
  "clamp x lo hi = max lo (min x hi)"

text \<open>
  A listed skill is grounded in the required skills when, both lower-cased and trimmed,
  it equals a required skill or one of the two contains the other.
\<close>

definition grounded :: "string list \<Rightarrow> string \<Rightarrow> bool" where
  "grounded required_skills skill =
     (\<exists>req \<in> set required_skills.
        strip (lower skill) = strip (lower req)
        \<or> sublist (strip (lower skill)) (strip (lower req))
        \<or> sublist (strip (lower req)) (strip (lower skill)))"

text \<open>
  A line of the resume text is a name line when it passes every condition of the name
  extraction: more than 2 characters after trimming, from 2 to 4 words, each of the first
  3 words alphabetic once its periods and commas are removed or in upper case, the first 3
  words joined by single spaces shorter than 50 characters, no header or technical term
  in the upper-cased line, and none of the characters comma, colon, semicolon and bar.
\<close>

definition name_line :: "string \<Rightarrow> bool" where
  "name_line raw_line =
     (let line = strip raw_line; words = split_ws line []
      in length line > 2
         \<and> 2 \<le> length words \<and> length words \<le> 4
         \<and> (\<forall>word \<in> set (take 3 words). name_word word)
         \<and> length (join '' '' (take 3 words)) < 50
         \<and> (\<forall>header \<in> set header_terms. \<not> sublist header (upper line))
         \<and> (\<forall>char \<in> set list_chars. char \<notin> set line))"

text \<open>The first 3 words of a line, joined by single spaces.\<close>

definition first_three :: "string \<Rightarrow> string" where
  "first_three raw_line = join '' '' (take 3 (split_ws (strip raw_line) []))"

text \<open>
  The claimed name of a resume can be read by the batch when the answer of the service
  failed, or when its name is a string or a value that is false.
\<close>

definition name_readable :: "resume \<Rightarrow> bool" where
  "name_readable r =
     (case r of (file_path, resume_text, answer) \<Rightarrow>
        (case answer of
           Raised \<Rightarrow> True
         | Parsed data \<Rightarrow> json_candidate_name data \<noteq> NonStr True))"

section \<open>Auxiliary facts\<close>

lemmas calibration_defs =
  validated_score_def score_range_def min_score_def max_allowed_score_def

lemma is_valid_match_grounded:
  "is_valid_match (strip (lower skill)) required_skills = grounded required_skills skill"
  by (induction required_skills) (auto simp add: grounded_def Let_def)

lemma validate_loop_filter:
  "validate_loop listed required_skills validated
     = validated @ filter (grounded required_skills) listed"
  by (induction listed arbitrary: validated) (simp_all add: Let_def is_valid_match_grounded)

lemma scan_lines_find:
  "scan_lines ls = map_option first_three (find name_line ls)"
  by (induction ls)
     (auto simp add: Let_def name_line_def first_three_def list_all_iff list_ex_iff)

lemma join_two_nonempty: "2 \<le> length ws \<Longrightarrow> join '' '' (take 3 ws) \<noteq> []"
proof -
  assume "2 \<le> length ws"
  then obtain a b rest where "ws = a # b # rest"
    by (cases ws; cases "tl ws") auto
  then show ?thesis by simp
qed

lemma name_line_nonempty: "name_line l \<Longrightarrow> first_three l \<noteq> []"
  by (simp add: name_line_def first_three_def Let_def join_two_nonempty)

lemma basename_empty: "basename p = [] \<longleftrightarrow> p = [] \<or> last p = CHR ''/''"
  by (cases "p = []") (auto simp add: basename_def takeWhile_eq_Nil_iff hd_rev)

lemma splitext_root_empty: "splitext_root b = [] \<longleftrightarrow> b = []"
  by (auto simp add: splitext_root_def Let_def list_ex_iff)

lemma filename_base_empty: "filename_base p = [] \<longleftrightarrow> p = [] \<or> last p = CHR ''/''"
  by (simp add: filename_base_def splitext_root_empty basename_empty)

lemma find_name_line: "find name_line ls = Some l \<Longrightarrow> name_line l"
  by (auto simp add: find_Some_iff)

lemma extract_find:
  "extract_candidate_name_from_text resume_text file_path =
     (case find name_line (take 10 (split_sep (CHR 0x0A) resume_text [])) of
        Some l \<Rightarrow> first_three l
      | None \<Rightarrow> filename_base file_path)"
  by (simp add: extract_candidate_name_from_text_def scan_lines_find Let_def
           split: option.splits)

lemma extract_empty:
  "extract_candidate_name_from_text resume_text file_path = [] \<longleftrightarrow>
     find name_line (take 10 (split_sep (CHR 0x0A) resume_text [])) = None
     \<and> (file_path = [] \<or> last file_path = CHR ''/'')"
  by (auto simp add: extract_find filename_base_empty split: option.splits
           dest: find_name_line name_line_nonempty)

lemma extract_empty_is_base:
  "extract_candidate_name_from_text resume_text file_path = [] \<Longrightarrow>
   filename_base file_path = []"
  by (simp add: extract_empty filename_base_empty)

lemma extract_differs_nonempty:
  "extract_candidate_name_from_text resume_text file_path \<noteq> filename_base file_path \<Longrightarrow>
   extract_candidate_name_from_text resume_text file_path \<noteq> []"
  using extract_empty_is_base [of resume_text file_path] by auto

lemma failed_analysis_default:
  "analyze_resume Raised required_skills = default_analysis \<and>
   matching_score default_analysis = 0 \<and> key_skills default_analysis = [] \<and>
   matching_skills default_analysis = [] \<and> missing_skills default_analysis = []"
  by (simp add: analyze_resume_def default_analysis_def)

lemma analyze_named_readable:
  assumes "name_readable r"
  shows "\<exists>analysis. analyze_named r required_skills = Inr analysis"
proof -
  obtain file_path resume_text answer where r: "r = (file_path, resume_text, answer)"
    by (cases r) auto
  have "candidate_name (analyze_resume answer required_skills) \<noteq> NonStr True"
    using assms r
    by (cases answer)
       (simp_all add: name_readable_def analyze_resume_def default_analysis_def Let_def
          split: prod.splits)
  then show ?thesis
    unfolding r analyze_named_def final_name_def Let_def
    by (cases "candidate_name (analyze_resume answer required_skills)") auto
qed

lemma analyze_loop_readable:
  assumes "list_all name_readable resumes"
  shows "\<exists>new. analyze_loop resumes required_skills analyses = Inr (analyses @ new)
           \<and> map Inr new = map (\<lambda>r. analyze_named r required_skills) resumes"
  using assms
proof (induction resumes arbitrary: analyses)
  case Nil
  then show ?case by simp
next
  case (Cons r rest)
  from Cons.prems obtain analysis where a: "analyze_named r required_skills = Inr analysis"
    using analyze_named_readable [of r required_skills] by auto
  from Cons.prems have "list_all name_readable rest"
    by simp
  from Cons.IH [OF this, of "analyses @ [analysis]"] obtain new where
    new: "analyze_loop rest required_skills (analyses @ [analysis])
            = Inr ((analyses @ [analysis]) @ new)"
      "map Inr new = map (\<lambda>r. analyze_named r required_skills) rest"
    by blast
  show ?case
    using a new by (intro exI [of _ "analysis # new"]) simp
qed

lemma sort_by_score_descending:
  "sorted_wrt (\<lambda>a b. matching_score a \<ge> matching_score b) (sort_by_score analyses)"
proof -
  have "sorted (map (\<lambda>x. - matching_score x) (sort_by_score analyses))"
    unfolding sort_by_score_def by (rule sorted_sort_key)
  then show ?thesis
    by (simp add: sorted_map)
qed

lemma sort_by_score_stable:
  "filter (\<lambda>a. matching_score a = k) (sort_by_score analyses)
     = filter (\<lambda>a. matching_score a = k) analyses"
proof -
  have "filter (\<lambda>a. - matching_score a = - k) (sort_key (\<lambda>x. - matching_score x) analyses)
          = filter (\<lambda>a. - matching_score a = - k) analyses"
    by (rule sort_key_stable)
  then show ?thesis
    by (simp add: sort_by_score_def)
qed

lemma batch_complete_sorted_stable:
  assumes "list_all name_readable resumes"
  shows "\<exists>analyses. batch_analyze_resumes resumes required_skills = Inr (sort_by_score analyses)
           \<and> map Inr analyses = map (\<lambda>r. analyze_named r required_skills) resumes
           \<and> length (sort_by_score analyses) = length resumes
           \<and> sorted_wrt (\<lambda>a b. matching_score a \<ge> matching_score b) (sort_by_score analyses)
           \<and> (\<forall>k. filter (\<lambda>a. matching_score a = k) (sort_by_score analyses)
                     = filter (\<lambda>a. matching_score a = k) analyses)"
proof -
  from analyze_loop_readable [OF assms, of required_skills "[]"] obtain analyses where
    loop: "analyze_loop resumes required_skills [] = Inr analyses"
    and each: "map Inr analyses = map (\<lambda>r. analyze_named r required_skills) resumes"
    by auto
  have "length (map Inr analyses :: (error + ResumeAnalysis) list) = length resumes"
    unfolding each by simp
  then have len: "length (sort_by_score analyses) = length resumes"
    by (simp add: sort_by_score_def)
  show ?thesis
    using loop each len sort_by_score_descending sort_by_score_stable
    by (intro exI [of _ analyses]) (simp add: batch_analyze_resumes_def)
qed

section \<open>Properties of the calibration\<close>

text \<open>
  C2, as the claim states it, fails: with no required skills the raw score 150 is
  returned as it is, and its clamp is 100.
\<close>

theorem no_requirements_not_clamped:
  "validated_score 150 0 False \<noteq> clamp 150 0 100"
  by (simp add: validated_score_def clamp_def)

text \<open>
  C2, amended: with no required skills the calibration returns the raw score unchanged,
  whatever the ratio; this is the clamp of the raw score to the interval from 0 to 100
  exactly when the raw score already lies in that interval.
\<close>

theorem no_requirements_passthrough:
  "validated_score raw_score ratio False = raw_score \<and>
   (validated_score raw_score ratio False = clamp raw_score 0 100
      \<longleftrightarrow> 0 \<le> raw_score \<and> raw_score \<le> 100)"
  by (auto simp add: validated_score_def clamp_def)

theorem no_requirements_passthrough_witness:
  "validated_score 42 0 False = 42 \<and> validated_score 42 0 False = clamp 42 0 100"
  using no_requirements_passthrough [of 42 0] by simp

text \<open>
  C1, as the claim states it, fails twice: with no required skills the raw score 150 comes
  back as 150, and with required skills and a ratio of one half the raw score -5 passes
  through as -5.
\<close>

theorem calibrated_score_out_of_range:
  "\<not> (validated_score 150 0 False \<le> 100) \<and> \<not> (0 \<le> validated_score (-5) 0.5 True)"
  by (simp add: calibration_defs)

text \<open>
  C1, amended: for every raw score that is not negative, and that is at most 100 when
  there are no required skills, the calibrated score lies between 0 and 100, for every
  ratio and both values of has_required.
\<close>

theorem calibrated_score_in_range:
  assumes "0 \<le> raw_score" and "has_required \<or> raw_score \<le> 100"
  shows "0 \<le> validated_score raw_score ratio has_required \<and>
         validated_score raw_score ratio has_required \<le> 100"
  using assms by (auto simp add: calibration_defs min_def)

theorem calibrated_score_in_range_witness:
  "(0::real) \<le> 120 \<and> 0 \<le> validated_score 120 0.5 True \<and> validated_score 120 0.5 True \<le> 100
   \<and> 0 \<le> validated_score 70 0 False \<and> validated_score 70 0 False \<le> 100"
  using calibrated_score_in_range [of 120 True "0.5"] calibrated_score_in_range [of 70 False 0]
  by simp

text \<open>
  C3: with required skills and a ratio of at least 0.9 the calibrated score is
  min(85 + (ratio - 0.9) * 150, 100); it does not depend on the raw score, it does not
  decrease when the ratio grows, and it lies between 85 and 100.
\<close>

theorem outstanding_boost:
  assumes "0.9 \<le> ratio" and "ratio \<le> ratio'"
  shows "validated_score raw_score ratio True = min (85 + (ratio - 0.9) * 150) 100 \<and>
         validated_score raw_score ratio True = validated_score raw_score' ratio True \<and>
         validated_score raw_score ratio True \<le> validated_score raw_score' ratio' True \<and>
         85 \<le> validated_score raw_score ratio True \<and>
         validated_score raw_score ratio True \<le> 100"
  using assms by (auto simp add: validated_score_def min_def)

theorem outstanding_boost_witness:
  "validated_score 10 0.95 True = 92.5 \<and>
   validated_score 10 0.95 True = validated_score 99 0.95 True \<and>
   validated_score 10 0.95 True \<le> validated_score 99 1 True"
  using outstanding_boost [of "0.95" 1 10 99] by simp

text \<open>
  C6, as the claim states it, fails: with a ratio of one half the band is 45 to 65, and
  the raw score 10 passes through unchanged, below the band.
\<close>

theorem pass_through_below_band:
  "validated_score 10 0.5 True = 10 \<and> min_score 0.5 = 45 \<and> max_allowed_score 0.5 = 65 \<and>
   \<not> (min_score 0.5 \<le> validated_score 10 0.5 True)"
  by (simp add: calibration_defs)

text \<open>
  C6, amended: with required skills, one application of the calibration lands between
  85 and 100 when the ratio is at least 0.9; at or below
  min_score + 0.3 * (max_allowed - min_score), which is 11, when the ratio is below 0.2;
  between 75 and 90 when the ratio is at least 0.8 and below 0.9; and for a ratio from
  0.2 up to 0.8 at or below max_allowed, and at or above min_score if and only if the raw
  score is. The pass-through branch returns a raw score that is at most max_allowed and
  may be below min_score.
\<close>

theorem calibrated_score_in_band:
  "(0.9 \<le> ratio \<longrightarrow>
      85 \<le> validated_score raw_score ratio True \<and> validated_score raw_score ratio True \<le> 100) \<and>
   (ratio < 0.2 \<longrightarrow>
      validated_score raw_score ratio True \<le>
        min_score ratio + 0.3 * (max_allowed_score ratio - min_score ratio) \<and>
      min_score ratio + 0.3 * (max_allowed_score ratio - min_score ratio) = 11) \<and>
   (0.8 \<le> ratio \<and> ratio < 0.9 \<longrightarrow>
      75 \<le> validated_score raw_score ratio True \<and> validated_score raw_score ratio True \<le> 90) \<and>
   (0.2 \<le> ratio \<and> ratio < 0.8 \<longrightarrow>
      validated_score raw_score ratio True \<le> max_allowed_score ratio \<and>
      (min_score ratio \<le> validated_score raw_score ratio True \<longleftrightarrow> min_score ratio \<le> raw_score)) \<and>
   (0.2 \<le> ratio \<and> ratio < 0.8 \<and> raw_score \<le> max_allowed_score ratio \<longrightarrow>
      validated_score raw_score ratio True = raw_score)"
  by (auto simp add: calibration_defs min_def)

theorem calibrated_score_in_band_witness:
  "85 \<le> validated_score 10 0.95 True \<and> validated_score 10 0.95 True \<le> 100 \<and>
   validated_score 60 0.1 True \<le> 11 \<and>
   75 \<le> validated_score 10 0.85 True \<and> validated_score 10 0.85 True \<le> 90 \<and>
   validated_score 70 0.5 True \<le> 65 \<and> 45 \<le> validated_score 70 0.5 True \<and>
   validated_score 50 0.5 True = 50"
  using calibrated_score_in_band [of "0.95" 10] calibrated_score_in_band [of "0.1" 60]
    calibrated_score_in_band [of "0.85" 10] calibrated_score_in_band [of "0.5" 70]
    calibrated_score_in_band [of "0.5" 50]
  by (simp add: score_range_def min_score_def max_allowed_score_def)

text \<open>
  C10: with required skills the calibrated score never exceeds 100, whatever the raw
  score and the ratio, and it is not negative when the raw score is not negative; with
  no required skills the raw score is returned as it is, so that no bound is enforced.
\<close>

theorem calibrated_score_upper_bound:
  "validated_score raw_score ratio True \<le> 100 \<and>
   (0 \<le> raw_score \<longrightarrow> 0 \<le> validated_score raw_score ratio True) \<and>
   validated_score raw_score ratio False = raw_score"
  by (auto simp add: calibration_defs min_def)

theorem calibrated_score_upper_bound_witness:
  "validated_score 1000 0.5 True \<le> 100 \<and> 0 \<le> validated_score 1000 0.5 True \<and>
   validated_score 1000 0.5 False = 1000"
  using calibrated_score_upper_bound [of 1000 "0.5"] by simp

section \<open>Properties of the skill validation\<close>

text \<open>
  C4: with a non-empty list of required skills, the validated skills are exactly the
  listed skills that are grounded in the required skills, in their original form, in the
  order of the listed skills and with their repetitions; the ratio is the number of
  validated skills divided by the number of required skills. The listed skills Python and
  LangChain against the required skills LangChain and OpenAI API give the validated list
  LangChain and the ratio one half.
\<close>

theorem validate_skills_grounded:
  assumes "required_skills \<noteq> []"
  shows "validate_skills listed required_skills =
           (filter (grounded required_skills) listed,
            real (length (filter (grounded required_skills) listed))
              / real (length required_skills)) \<and>
         validate_skills [''Python'', ''LangChain''] [''LangChain'', ''OpenAI API'']
           = ([''LangChain''], 0.5)"
proof
  show "validate_skills listed required_skills =
          (filter (grounded required_skills) listed,
           real (length (filter (grounded required_skills) listed))
             / real (length required_skills))"
    using assms by (simp add: validate_skills_def validate_loop_filter Let_def)
  show "validate_skills [''Python'', ''LangChain''] [''LangChain'', ''OpenAI API'']
          = ([''LangChain''], 0.5)"
    by code_simp
qed

theorem validate_skills_grounded_witness:
  "validate_skills [''python '', ''Rust'', ''SQL'', ''python ''] [''Python 3'', ''MySQL'']
     = ([''python '', ''SQL'', ''python ''], 3 / 2)"
proof -
  have nonempty: "[''Python 3'', ''MySQL''] \<noteq> []"
    by simp
  have kept: "filter (grounded [''Python 3'', ''MySQL'']) [''python '', ''Rust'', ''SQL'', ''python '']
                = [''python '', ''SQL'', ''python '']"
    by code_simp
  have "validate_skills [''python '', ''Rust'', ''SQL'', ''python ''] [''Python 3'', ''MySQL'']
          = (filter (grounded [''Python 3'', ''MySQL'']) [''python '', ''Rust'', ''SQL'', ''python ''],
             real (length (filter (grounded [''Python 3'', ''MySQL''])
                     [''python '', ''Rust'', ''SQL'', ''python '']))
               / real (length [''Python 3'', ''MySQL'']))"
    using validate_skills_grounded [OF nonempty, of "[''python '', ''Rust'', ''SQL'', ''python '']"]
    by (rule conjunct1)
  then show ?thesis
    unfolding kept by simp
qed

text \<open>
  C5, as the claim states it, fails: two listed skills that both match the one required
  skill give the ratio 2.
\<close>

theorem ratio_above_one:
  "snd (validate_skills [''Python'', ''Python 3''] [''Python'']) = 2"
  by code_simp

text \<open>
  C5, amended: with a non-empty list of required skills the ratio is at least 0 and at
  most the number of listed skills divided by the number of required skills; it lies
  between 0 and 1 whenever there are no more listed skills than required skills.
\<close>

theorem ratio_bounds:
  assumes "required_skills \<noteq> []"
  shows "0 \<le> snd (validate_skills listed required_skills) \<and>
         snd (validate_skills listed required_skills)
           \<le> real (length listed) / real (length required_skills) \<and>
         (length listed \<le> length required_skills
            \<longrightarrow> snd (validate_skills listed required_skills) \<le> 1)"
proof -
  let ?kept = "filter (grounded required_skills) listed"
  have ratio: "snd (validate_skills listed required_skills)
                 = real (length ?kept) / real (length required_skills)"
    using assms by (simp add: validate_skills_def validate_loop_filter Let_def)
  have pos: "0 < real (length required_skills)"
    using assms by simp
  have kept_le: "real (length ?kept) \<le> real (length listed)"
    by simp
  have upper: "real (length ?kept) / real (length required_skills)
                 \<le> real (length listed) / real (length required_skills)"
    using kept_le pos by (simp add: divide_right_mono)
  have one: "real (length ?kept) / real (length required_skills) \<le> 1"
    if "length listed \<le> length required_skills"
  proof -
    have "length ?kept \<le> length required_skills"
      using that length_filter_le [of "grounded required_skills" listed] by linarith
    then show ?thesis
      using pos by simp
  qed
  show ?thesis
    using ratio upper one by simp
qed

theorem ratio_bounds_witness:
  "0 \<le> snd (validate_skills [''LangChain'', ''Rust''] [''LangChain'', ''OpenAI API'']) \<and>
   snd (validate_skills [''LangChain'', ''Rust''] [''LangChain'', ''OpenAI API'']) \<le> 1"
proof -
  have nonempty: "[''LangChain'', ''OpenAI API''] \<noteq> []"
    by simp
  show ?thesis
    using ratio_bounds [OF nonempty, of "[''LangChain'', ''Rust'']"] by simp
qed

section \<open>Properties of the name extraction\<close>

text \<open>
  C8, as the claim states it, fails: with an empty text and an empty file path the name
  extraction returns the empty string.
\<close>

theorem extract_empty_name: "extract_candidate_name_from_text '''' '''' = ''''"
  by code_simp

text \<open>
  C8, amended: the name extraction has no error result. It reads the first 10 lines only,
  in order, and returns the first 3 words, joined by single spaces, of the first name line;
  when none of these lines is a name line it returns the file path with its directories and
  its extension removed. The result is the empty string exactly when no name line is found
  and the file path is empty or ends with a slash. The text with the lines John A. Smith,
  Senior Engineer and Skills: Python, SQL gives John A. Smith.
\<close>

theorem extract_candidate_name:
  "extract_candidate_name_from_text resume_text file_path =
     (case find name_line (take 10 (split_sep (CHR 0x0A) resume_text [])) of
        Some l \<Rightarrow> join '' '' (take 3 (split_ws (strip l) []))
      | None \<Rightarrow> filename_base file_path) \<and>
   (extract_candidate_name_from_text resume_text file_path = [] \<longleftrightarrow>
      find name_line (take 10 (split_sep (CHR 0x0A) resume_text [])) = None
      \<and> (file_path = [] \<or> last file_path = CHR ''/'')) \<and>
   extract_candidate_name_from_text
     (''John A. Smith'' @ [CHR 0x0A] @ ''Senior Engineer'' @ [CHR 0x0A] @ ''Skills: Python, SQL'')
     ''resume_007'' = ''John A. Smith''"
proof (intro conjI)
  show "extract_candidate_name_from_text resume_text file_path =
     (case find name_line (take 10 (split_sep (CHR 0x0A) resume_text [])) of
        Some l \<Rightarrow> join '' '' (take 3 (split_ws (strip l) []))
      | None \<Rightarrow> filename_base file_path)"
    by (simp add: extract_find first_three_def split: option.splits)
  show "extract_candidate_name_from_text resume_text file_path = [] \<longleftrightarrow>
      find name_line (take 10 (split_sep (CHR 0x0A) resume_text [])) = None
      \<and> (file_path = [] \<or> last file_path = CHR ''/'')"
    by (rule extract_empty)
  show "extract_candidate_name_from_text
     (''John A. Smith'' @ [CHR 0x0A] @ ''Senior Engineer'' @ [CHR 0x0A] @ ''Skills: Python, SQL'')
     ''resume_007'' = ''John A. Smith''"
    by code_simp
qed

theorem extract_candidate_name_witness:
  "extract_candidate_name_from_text (''CURRICULUM VITAE'' @ [CHR 0x0A] @ ''  Maria  DE LA Cruz '')
     ''/home/hr/cv_12.pdf'' = ''Maria DE LA'' \<and>
   extract_candidate_name_from_text ''Skills: Python, SQL'' ''/home/hr/cv_12.pdf'' = ''cv_12''"
proof -
  have found: "find name_line
                 (take 10 (split_sep (CHR 0x0A)
                    (''CURRICULUM VITAE'' @ [CHR 0x0A] @ ''  Maria  DE LA Cruz '') []))
               = Some ''  Maria  DE LA Cruz ''"
    by code_simp
  have words: "join '' '' (take 3 (split_ws (strip ''  Maria  DE LA Cruz '') [])) = ''Maria DE LA''"
    by code_simp
  have none: "find name_line (take 10 (split_sep (CHR 0x0A) ''Skills: Python, SQL'' [])) = None"
    by code_simp
  have base: "filename_base ''/home/hr/cv_12.pdf'' = ''cv_12''"
    by code_simp
  have one: "extract_candidate_name_from_text
               (''CURRICULUM VITAE'' @ [CHR 0x0A] @ ''  Maria  DE LA Cruz '')
               ''/home/hr/cv_12.pdf'' = ''Maria DE LA''"
    using extract_candidate_name
            [of "''CURRICULUM VITAE'' @ [CHR 0x0A] @ ''  Maria  DE LA Cruz ''" "''/home/hr/cv_12.pdf''"]
    unfolding found by (simp only: option.case words)
  have two: "extract_candidate_name_from_text ''Skills: Python, SQL'' ''/home/hr/cv_12.pdf''
               = ''cv_12''"
    using extract_candidate_name [of "''Skills: Python, SQL''" "''/home/hr/cv_12.pdf''"]
    unfolding none by (simp only: option.case base)
  show ?thesis
    using one two by simp
qed

section \<open>Properties of the batch\<close>

text \<open>
  C9, as the claim states it, fails: a claimed name that is the string Unknown Candidate is
  not empty, is longer than 2 characters and does not contain AVINASH, and yet the file
  name is chosen when the text gives no name.
\<close>

theorem placeholder_name_not_kept:
  "analyze_named
     (''/home/hr/cv_12.pdf'', ''Skills: Python, SQL'',
      Parsed \<lparr>json_candidate_name = Str ''Unknown Candidate'', json_matching_score = 50,
              json_key_skills = [], json_matching_skills = [], json_missing_skills = [],
              json_summary = [], json_strengths = [], json_weaknesses = []\<rparr>) []
   = Inr \<lparr>candidate_name = Str ''cv_12'', matching_score = 50, key_skills = [],
          matching_skills = [], missing_skills = [], summary = [], strengths = [],
          weaknesses = []\<rparr>"
  by code_simp

text \<open>
  C9, amended: for a candidate whose claimed name is a string, the final name is the
  result of the name extraction when it differs from the file name without directories and
  extension; otherwise the claimed name, when it is not empty, is not the placeholder
  Unknown Candidate, is longer than 2 characters after trimming and does not contain
  AVINASH once upper-cased; otherwise that file name. The rest of the analysis is unchanged.
\<close>

theorem final_name_precedence:
  assumes "candidate_name (analyze_resume answer required_skills) = Str ai_name"
  shows "analyze_named (file_path, resume_text, answer) required_skills =
           Inr ((analyze_resume answer required_skills)
                  \<lparr>candidate_name := Str
                     (if extract_candidate_name_from_text resume_text file_path
                           \<noteq> filename_base file_path
                      then extract_candidate_name_from_text resume_text file_path
                      else if ai_name \<noteq> [] \<and> ai_name \<noteq> ''Unknown Candidate''
                              \<and> 2 < length (strip ai_name)
                              \<and> \<not> sublist ''AVINASH'' (upper ai_name)
                      then ai_name
                      else filename_base file_path)\<rparr>)"
proof (cases "extract_candidate_name_from_text resume_text file_path = filename_base file_path")
  case True
  then show ?thesis
    using assms by (simp add: analyze_named_def final_name_def Let_def)
next
  case False
  then show ?thesis
    using assms extract_differs_nonempty [OF False]
    by (simp add: analyze_named_def final_name_def Let_def)
qed

theorem final_name_precedence_witness:
  "analyze_named
     (''/home/hr/cv_12.pdf'', ''Skills: Python, SQL'',
      Parsed \<lparr>json_candidate_name = Str ''Jane Doe'', json_matching_score = 50,
              json_key_skills = [], json_matching_skills = [], json_missing_skills = [],
              json_summary = [], json_strengths = [], json_weaknesses = []\<rparr>) []
   = Inr \<lparr>candidate_name = Str ''Jane Doe'', matching_score = 50, key_skills = [],
          matching_skills = [], missing_skills = [], summary = [], strengths = [],
          weaknesses = []\<rparr>"
proof -
  let ?answer = "Parsed \<lparr>json_candidate_name = Str ''Jane Doe'', json_matching_score = 50,
              json_key_skills = [], json_matching_skills = [], json_missing_skills = [],
              json_summary = [], json_strengths = [], json_weaknesses = []\<rparr>"
  have analysis: "analyze_resume ?answer [] =
      \<lparr>candidate_name = Str ''Jane Doe'', matching_score = 50, key_skills = [],
          matching_skills = [], missing_skills = [], summary = [], strengths = [],
          weaknesses = []\<rparr>"
    by (simp add: analyze_resume_def validate_skills_def validated_score_def)
  have claimed: "candidate_name (analyze_resume ?answer []) = Str ''Jane Doe''"
    by (simp add: analysis)
  have extracted: "extract_candidate_name_from_text ''Skills: Python, SQL'' ''/home/hr/cv_12.pdf''
                     = ''cv_12''"
    by code_simp
  have base: "filename_base ''/home/hr/cv_12.pdf'' = ''cv_12''"
    by code_simp
  have accepted: "''Jane Doe'' \<noteq> [] \<and> ''Jane Doe'' \<noteq> ''Unknown Candidate''
                    \<and> 2 < length (strip ''Jane Doe'')
                    \<and> \<not> sublist ''AVINASH'' (upper ''Jane Doe'')"
    by code_simp
  show ?thesis
    using final_name_precedence [OF claimed, of "''/home/hr/cv_12.pdf''" "''Skills: Python, SQL''"]
    unfolding extracted base analysis using accepted by simp
qed

text \<open>
  C7: the batch does not return one analysis for each resume on every input. When the
  text of a resume gives no name and the answer of the service holds a name that is not a
  string and is true (a number, a list, an object), line 460 raises AttributeError outside
  every handler: the batch returns nothing, and the analysis of the resume before it is lost.
  When every name can be read, the batch returns one analysis for each resume, in
  descending order of score and stable, and a failed analysis is the default analysis with
  score 0 (lemmas \<open>batch_complete_sorted_stable\<close> and \<open>failed_analysis_default\<close>).
\<close>

theorem batch_raises_on_non_string_name:
  "batch_analyze_resumes
     [(''/home/hr/cv_11.pdf'', ''John Smith'',
       Parsed \<lparr>json_candidate_name = Str ''John Smith'', json_matching_score = 70,
               json_key_skills = [], json_matching_skills = [], json_missing_skills = [],
               json_summary = [], json_strengths = [], json_weaknesses = []\<rparr>),
      (''/home/hr/cv_12.pdf'', ''Skills: Python, SQL'',
       Parsed \<lparr>json_candidate_name = NonStr True, json_matching_score = 50,
               json_key_skills = [], json_matching_skills = [], json_missing_skills = [],
               json_summary = [], json_strengths = [], json_weaknesses = []\<rparr>)] []
   = Inl AttributeError"
  by code_simp

end
